theory Spec2Isabelle
  imports Complex_Main
begin

section \<open>Trees\<close>

text \<open>
  The transform works on XML trees. An element has a namespace, a local name, attributes
  and children; the stylesheet binds the prefix \<^verbatim>\<open>m:\<close> to the MathML namespace, and a
  name test without prefix (\<^verbatim>\<open>mstack\<close>, \<^verbatim>\<open>mtd\<close>) means no namespace. Attributes are
  kept as an association list with distinct names; adding an attribute whose name is
  already there replaces the value, as XSLT does.

  Strings are UTF-8: \<^verbatim>\<open>string-length\<close> and \<^verbatim>\<open>substring\<close> count code points, so a
  character is a lead byte with its continuation bytes.
\<close>

datatype ns = MathML | NoNS | OtherNS string

type_synonym attrs = "(string \<times> string) list"

datatype node = Text string | Element ns string attrs "node list"

fun set_attr :: "string \<times> string \<Rightarrow> attrs \<Rightarrow> attrs" where
  "set_attr kv [] = [kv]"
| "set_attr kv (x # xs) = (if fst x = fst kv then kv # xs else x # set_attr kv xs)"

definition add_attrs :: "attrs \<Rightarrow> attrs \<Rightarrow> attrs" where
  "add_attrs as new = foldl (\<lambda>acc kv. set_attr kv acc) as new"

definition attr :: "attrs \<Rightarrow> string \<Rightarrow> string option" where
  "attr as k = map_of as k"

text \<open>\<^verbatim>\<open>string(@k)\<close>: the empty string when the attribute is absent.\<close>

definition attr_str :: "attrs \<Rightarrow> string \<Rightarrow> string" where
  "attr_str as k = (case attr as k of None \<Rightarrow> [] | Some v \<Rightarrow> v)"

text \<open>\<^verbatim>\<open>xsl:copy-of select="@k"\<close>.\<close>

definition copy_attr :: "attrs \<Rightarrow> string \<Rightarrow> attrs" where
  "copy_attr as k = (case attr as k of None \<Rightarrow> [] | Some v \<Rightarrow> [(k, v)])"

fun is_elem :: "node \<Rightarrow> bool" where
  "is_elem (Text s) = False"
| "is_elem (Element n t as ks) = True"

text \<open>\<^verbatim>\<open>*\<close>: the element children.\<close>

definition elems :: "node list \<Rightarrow> node list" where
  "elems ks = filter is_elem ks"

fun is_named :: "ns \<Rightarrow> string \<Rightarrow> node \<Rightarrow> bool" where
  "is_named n t (Text s) = False"
| "is_named n t (Element n' t' as ks) = (n' = n \<and> t' = t)"

fun node_attrs :: "node \<Rightarrow> attrs" where
  "node_attrs (Text s) = []"
| "node_attrs (Element n t as ks) = as"

fun children :: "node \<Rightarrow> node list" where
  "children (Text s) = []"
| "children (Element n t as ks) = ks"

fun node_tag :: "node \<Rightarrow> string" where
  "node_tag (Text s) = []"
| "node_tag (Element n t as ks) = t"

text \<open>The string-value of a node: the text of its descendants, in document order.\<close>

fun string_value :: "node \<Rightarrow> string" where
  "string_value (Text s) = s"
| "string_value (Element n t as ks) = concat (map string_value ks)"

text \<open>
  \<^verbatim>\<open>//node()\<close> and \<^verbatim>\<open>//*\<close> are used by the stylesheet only to count: a loop that
  should run \<open>k\<close> times iterates over the first \<open>k\<close> nodes (or elements) of the document
  of the context node, so it runs at most as often as that document has nodes.
\<close>

fun count_nodes :: "node \<Rightarrow> nat" where
  "count_nodes (Text s) = 1"
| "count_nodes (Element n t as ks) = Suc (sum_list (map count_nodes ks))"

fun count_elems :: "node \<Rightarrow> nat" where
  "count_elems (Text s) = 0"
| "count_elems (Element n t as ks) = Suc (sum_list (map count_elems ks))"

text \<open>
  The content of a constructed element or result tree fragment: adjacent text nodes
  merge and empty text nodes vanish.
\<close>

fun norm :: "node list \<Rightarrow> node list" where
  "norm [] = []"
| "norm (Text s # ns) =
     (if s = [] then norm ns
      else (case norm ns of Text t # r \<Rightarrow> Text (s @ t) # r | r \<Rightarrow> Text s # r))"
| "norm (Element n t as ks # ns) = Element n t as ks # norm ns"

section \<open>XPath strings and numbers\<close>

definition is_space :: "char \<Rightarrow> bool" where
  "is_space c = (c = CHR '' '' \<or> c = CHR 0x09 \<or> c = CHR 0x0A \<or> c = CHR 0x0D)"

fun tokens :: "string \<Rightarrow> string \<Rightarrow> string list" where
  "tokens cur [] = (if cur = [] then [] else [cur])"
| "tokens cur (c # cs) =
     (if is_space c then (if cur = [] then tokens [] cs else cur # tokens [] cs)
      else tokens (cur @ [c]) cs)"

fun unwords :: "string list \<Rightarrow> string" where
  "unwords [] = []"
| "unwords [w] = w"
| "unwords (w # v # ws) = w @ '' '' @ unwords (v # ws)"

definition normalize_space :: "string \<Rightarrow> string" where
  "normalize_space s = unwords (tokens [] s)"

definition is_cont :: "char \<Rightarrow> bool" where
  "is_cont c = (128 \<le> (of_char c :: nat) \<and> (of_char c :: nat) < 192)"

function code_points :: "string \<Rightarrow> string list" where
  "code_points [] = []"
| "code_points (c # cs) = (c # takeWhile is_cont cs) # code_points (dropWhile is_cont cs)"
  by pat_completeness auto
termination
  by (relation "measure length") (auto simp: less_Suc_eq_le length_dropWhile_le)

definition string_length :: "string \<Rightarrow> nat" where
  "string_length s = length (code_points s)"

text \<open>\<^verbatim>\<open>substring(s, pos, 1)\<close> for a position \<open>pos\<close> counted from 1.\<close>

definition substring1 :: "string \<Rightarrow> nat \<Rightarrow> string" where
  "substring1 s pos =
     (if 1 \<le> pos \<and> pos \<le> string_length s then code_points s ! (pos - 1) else [])"

definition starts_with :: "string \<Rightarrow> string \<Rightarrow> bool" where
  "starts_with s t = (take (length t) s = t)"

text \<open>The part of \<open>s\<close> before the first occurrence of \<open>t\<close>, if \<open>t\<close> occurs.\<close>

fun find_before :: "string \<Rightarrow> string \<Rightarrow> string option" where
  "find_before t [] = (if t = [] then Some [] else None)"
| "find_before t (c # cs) =
     (if starts_with (c # cs) t then Some []
      else map_option ((#) c) (find_before t cs))"

definition contains :: "string \<Rightarrow> string \<Rightarrow> bool" where
  "contains s t = (find_before t s \<noteq> None)"

definition substring_before :: "string \<Rightarrow> string \<Rightarrow> string" where
  "substring_before s t = (case find_before t s of None \<Rightarrow> [] | Some p \<Rightarrow> p)"

text \<open>
  XPath numbers are IEEE doubles. The model keeps the value \<^verbatim>\<open>NaN\<close> and takes every
  other number as an exact rational: the sums, differences and products the stylesheet
  forms of small integers and decimal fractions have no rounding error; overflow,
  infinities and the sign of zero are left out.
\<close>

datatype xnum = NaN | Num rat

fun xadd :: "xnum \<Rightarrow> xnum \<Rightarrow> xnum" where
  "xadd (Num a) (Num b) = Num (a + b)"
| "xadd a b = NaN"

fun xsub :: "xnum \<Rightarrow> xnum \<Rightarrow> xnum" where
  "xsub (Num a) (Num b) = Num (a - b)"
| "xsub a b = NaN"

fun xmul :: "xnum \<Rightarrow> xnum \<Rightarrow> xnum" where
  "xmul (Num a) (Num b) = Num (a * b)"
| "xmul a b = NaN"

text \<open>Division, used by the stylesheet with the constant divisors 2 and .007 only.\<close>

fun xdiv :: "xnum \<Rightarrow> xnum \<Rightarrow> xnum" where
  "xdiv (Num a) (Num b) = (if b = 0 then NaN else Num (a / b))"
| "xdiv a b = NaN"

text \<open>\<^verbatim>\<open>round\<close>: the closest integer, the larger one of two.\<close>

fun xround :: "xnum \<Rightarrow> xnum" where
  "xround (Num a) = Num (of_int \<lfloor>a + 1 / 2\<rfloor>)"
| "xround NaN = NaN"

fun xneg :: "xnum \<Rightarrow> xnum" where
  "xneg (Num a) = Num (- a)"
| "xneg NaN = NaN"

text \<open>Comparisons with \<^verbatim>\<open>NaN\<close> are false.\<close>

fun xle :: "xnum \<Rightarrow> xnum \<Rightarrow> bool" where
  "xle (Num a) (Num b) = (a \<le> b)"
| "xle a b = False"

definition is_digit :: "char \<Rightarrow> bool" where
  "is_digit c = (48 \<le> (of_char c :: nat) \<and> (of_char c :: nat) \<le> 57)"

definition digits_val :: "string \<Rightarrow> nat" where
  "digits_val ds = foldl (\<lambda>a c. 10 * a + (of_char c - 48)) 0 ds"

definition trim :: "string \<Rightarrow> string" where
  "trim s = rev (dropWhile is_space (rev (dropWhile is_space s)))"

text \<open>\<^verbatim>\<open>Number ::= Digits ('.' Digits?)? | '.' Digits\<close>\<close>

definition parse_unsigned :: "string \<Rightarrow> xnum" where
  "parse_unsigned s =
     (let ip = takeWhile (\<lambda>c. c \<noteq> CHR ''.'') s;
          rest = dropWhile (\<lambda>c. c \<noteq> CHR ''.'') s
      in if \<not> list_all is_digit ip then NaN
         else if rest = [] then (if ip = [] then NaN else Num (of_nat (digits_val ip)))
         else if \<not> list_all is_digit (tl rest) \<or> (ip = [] \<and> tl rest = []) then NaN
         else Num (of_nat (digits_val ip)
                   + of_nat (digits_val (tl rest)) / 10 ^ length (tl rest)))"

text \<open>
  \<^verbatim>\<open>number(s)\<close>: optional white space, an optional minus sign, a Number, optional
  white space; any other string is \<^verbatim>\<open>NaN\<close>.
\<close>

definition xnumber :: "string \<Rightarrow> xnum" where
  "xnumber s =
     (case trim s of
        [] \<Rightarrow> NaN
      | c # u \<Rightarrow> if c = CHR ''-'' then xneg (parse_unsigned u) else parse_unsigned (c # u))"

definition digit_char :: "nat \<Rightarrow> char" where
  "digit_char d = char_of (48 + d)"

function show_nat :: "nat \<Rightarrow> string" where
  "show_nat n = (if n < 10 then [digit_char n] else show_nat (n div 10) @ [digit_char (n mod 10)])"
  by pat_completeness auto
termination
  by (relation "measure id") auto

declare show_nat.simps [simp del]

fun frac_digits :: "nat \<Rightarrow> rat \<Rightarrow> string" where
  "frac_digits 0 f = []"
| "frac_digits (Suc k) f =
     (if f = 0 then []
      else digit_char (nat \<lfloor>10 * f\<rfloor>) # frac_digits k (10 * f - of_int \<lfloor>10 * f\<rfloor>))"

text \<open>
  \<^verbatim>\<open>string(x)\<close>: an integer prints without a decimal point, any other number with the
  digits of its fraction (cut after 17 of them, more than a double has).
\<close>

fun xstring :: "xnum \<Rightarrow> string" where
  "xstring NaN = ''NaN''"
| "xstring (Num r) =
     (if r < 0 then ''-'' else []) @ show_nat (nat \<lfloor>\<bar>r\<bar>\<rfloor>) @
     (if \<bar>r\<bar> = of_int \<lfloor>\<bar>r\<bar>\<rfloor> then []
      else ''.'' @ frac_digits 17 (\<bar>r\<bar> - of_int \<lfloor>\<bar>r\<bar>\<rfloor>))"

text \<open>
  How many of the positions \<open>1, \<dots>, n\<close> satisfy \<^verbatim>\<open>position() <= x\<close>: the length of a
  counting loop over \<open>n\<close> available nodes.
\<close>

fun count_upto :: "nat \<Rightarrow> xnum \<Rightarrow> nat" where
  "count_upto n NaN = 0"
| "count_upto n (Num r) = min n (nat \<lfloor>r\<rfloor>)"

text \<open>\<^verbatim>\<open>xs[position() = x]\<close>: at most one item.\<close>

fun nth_num :: "'a list \<Rightarrow> xnum \<Rightarrow> 'a list" where
  "nth_num xs NaN = []"
| "nth_num xs (Num r) =
     (if r = of_int \<lfloor>r\<rfloor> \<and> 1 \<le> r \<and> r \<le> of_nat (length xs) then [xs ! (nat \<lfloor>r\<rfloor> - 1)] else [])"

text \<open>\<^verbatim>\<open>sum(@k)\<close>: zero when the attribute is absent, else its value as a number.\<close>

definition attr_sum :: "attrs \<Rightarrow> string \<Rightarrow> xnum" where
  "attr_sum as k = (case attr as k of None \<Rightarrow> Num 0 | Some v \<Rightarrow> xnumber v)"

section \<open>The stylesheet: rules that do not recurse into other modes\<close>

text \<open>A literal result element of the stylesheet in the MathML namespace.\<close>

abbreviation mml :: "string \<Rightarrow> attrs \<Rightarrow> node list \<Rightarrow> node" where
  "mml t as ks \<equiv> Element MathML t as (norm ks)"

text \<open>
  What a template needs to know of the ancestors of its context node:
  \<^item> \<open>decimalpoint\<close>: \<^verbatim>\<open>ancestor::*[@decimalpoint][1]/@decimalpoint\<close>, if there is one;
  \<^item> \<open>stackalign\<close>: \<^verbatim>\<open>string(ancestor::m:mstack[1]/@stackalign)\<close>;
  \<^item> \<open>plain_left\<close>: \<^verbatim>\<open>ancestor::mstack[1]/@stackalign='left'\<close>, where \<^verbatim>\<open>mstack\<close> is written
    without prefix and so names an element in no namespace;
  \<^item> \<open>doc_nodes\<close>: the number of nodes of the document, which bounds the counting loops.
\<close>

record ctx =
  decimalpoint :: "string option"
  stackalign :: string
  plain_left :: bool
  doc_nodes :: nat

text \<open>The context of the children of an element, from the context of the element.\<close>

definition descend :: "ctx \<Rightarrow> ns \<Rightarrow> string \<Rightarrow> attrs \<Rightarrow> ctx" where
  "descend c n t as =
     c\<lparr>decimalpoint := (case attr as ''decimalpoint'' of None \<Rightarrow> decimalpoint c | Some v \<Rightarrow> Some v),
       stackalign := (if n = MathML \<and> t = ''mstack'' then attr_str as ''stackalign''
                      else stackalign c),
       plain_left := (if n = NoNS \<and> t = ''mstack'' then attr as ''stackalign'' = Some ''left''
                      else plain_left c)\<rparr>"

text \<open>The context of the document element of a document with \<open>k\<close> nodes.\<close>

definition root_ctx :: "nat \<Rightarrow> ctx" where
  "root_ctx k = \<lparr>decimalpoint = None, stackalign = [], plain_left = False, doc_nodes = k\<rparr>"

text \<open>\<^verbatim>\<open>*[i]\<close>: the \<open>i\<close>-th element child, if there is one.\<close>

definition child :: "node list \<Rightarrow> nat \<Rightarrow> node list" where
  "child ks i = take 1 (drop (i - 1) (elems ks))"

subsection \<open>Mode rtl: attributes and text\<close>

text \<open>
  The templates for \<^verbatim>\<open>@open\<close> and \<^verbatim>\<open>@close\<close>: the six listed brackets are replaced by
  their counterparts, any other value is kept.
\<close>

definition flip_fence :: "string \<Rightarrow> string" where
  "flip_fence v =
     (if v = ''('' then '')'' else if v = '')'' then ''(''
      else if v = ''['' then '']'' else if v = '']'' then ''[''
      else if v = ''{'' then ''}'' else if v = ''}'' then ''{''
      else v)"

text \<open>
  What the attribute templates of mode rtl add to the element under construction for
  one attribute: \<^verbatim>\<open>@open\<close> and \<^verbatim>\<open>@close\<close> change roles, \<^verbatim>\<open>@notation[.='radical']\<close>
  becomes \<^verbatim>\<open>top right\<close>, and any other attribute is copied, followed by \<^verbatim>\<open>dir="ltr"\<close>.
\<close>

definition rtl_attr :: "string \<times> string \<Rightarrow> attrs" where
  "rtl_attr kv =
     (if fst kv = ''open'' then [(''close'', flip_fence (snd kv))]
      else if fst kv = ''close'' then [(''open'', flip_fence (snd kv))]
      else if fst kv = ''notation'' \<and> snd kv = ''radical'' then [(''notation'', ''top right'')]
      else [kv, (''dir'', ''ltr'')])"

text \<open>\<^verbatim>\<open>xsl:apply-templates select="@*" mode="rtl"\<close> into an element that has \<open>acc\<close>.\<close>

definition rtl_attrs :: "attrs \<Rightarrow> attrs \<Rightarrow> attrs" where
  "rtl_attrs acc as = add_attrs acc (concat (map rtl_attr as))"

definition elem_of :: string where
  "elem_of = [CHR 0xE2, CHR 0x88, CHR 0x88]"

definition contains_member :: string where
  "contains_member = [CHR 0xE2, CHR 0x88, CHR 0x8B]"

text \<open>
  The eight text templates of mode rtl, and the built-in rule (copy the text) for
  every other text node. \<open>elem_of\<close> is U+2208 and \<open>contains_member\<close> is U+220B.
\<close>

definition rtl_text :: "string \<Rightarrow> string" where
  "rtl_text s =
     (if s = ''('' then '')'' else if s = '')'' then ''(''
      else if s = ''{'' then ''}'' else if s = ''}'' then ''{''
      else if s = ''<'' then ''>'' else if s = ''>'' then ''<''
      else if s = elem_of then contains_member
      else if s = contains_member then elem_of
      else s)"

subsection \<open>Mode rtl: the children of mmultiscripts\<close>

text \<open>
  Positions (from 0) in the list of element children.
  \<open>after_prescripts\<close> is \<^verbatim>\<open>m:mprescripts/following-sibling::*[position() mod 2 = 1]\<close>,
  \<open>before_prescripts\<close> is
  \<^verbatim>\<open>m:mprescripts/preceding-sibling::*[position()!=last()][position() mod 2 = 0]\<close>
  (positions on the reverse axis count back from the marker, and the last one is the
  base), \<open>even_children\<close> is \<^verbatim>\<open>*[position() mod 2 = 0]\<close>.
\<close>

definition prescripts :: "node list \<Rightarrow> nat list" where
  "prescripts es = filter (\<lambda>i. is_named MathML ''mprescripts'' (es ! i)) [0..<length es]"

definition after_prescripts :: "node list \<Rightarrow> nat list" where
  "after_prescripts es =
     filter (\<lambda>j. \<exists>i \<in> set (prescripts es). i < j \<and> odd (j - i)) [0..<length es]"

definition before_prescripts :: "node list \<Rightarrow> nat list" where
  "before_prescripts es =
     filter (\<lambda>j. \<exists>i \<in> set (prescripts es). 1 \<le> j \<and> j < i \<and> even (i - j)) [0..<length es]"

definition even_children :: "node list \<Rightarrow> nat list" where
  "even_children es = filter odd [0..<length es]"

text \<open>
  The body of the loops: for each selected position, taken in descending order, the
  element there and its next sibling (\<^verbatim>\<open>following-sibling::*[1]\<close>).
\<close>

definition pairs_desc :: "node list \<Rightarrow> nat list \<Rightarrow> node list" where
  "pairs_desc es js = concat (map (\<lambda>j. take 2 (drop j es)) (rev js))"

subsection \<open>Mode ml: lines under rows\<close>

definition has_class :: "string \<Rightarrow> node \<Rightarrow> bool" where
  "has_class cl x = (attr (node_attrs x) ''class'' = Some cl)"

definition has_child :: "string \<Rightarrow> node \<Rightarrow> bool" where
  "has_child t x = list_ex (is_named MathML t) (children x)"

definition mtds :: "node list \<Rightarrow> node list" where
  "mtds ks = filter (is_named MathML ''mtd'') ks"

text \<open>
  \<^verbatim>\<open>m:mtr[following-sibling::*[1][@class='msline']]\<close>: \<open>line\<close> is the following row (a list of one node); a
  cell above a cell of the line that holds an \<^verbatim>\<open>m:mpadded\<close> gets a bottom border.
\<close>

definition ml_underlined :: "attrs \<Rightarrow> node list \<Rightarrow> node list \<Rightarrow> node" where
  "ml_underlined as ks line =
     mml ''mtr'' as
       (map (\<lambda>(p, cell).
               mml ''mtd'' (node_attrs cell)
                 (if list_ex (has_child ''mpadded'') (take 1 (drop p (mtds (concat (map children line)))))
                  then [mml ''mpadded'' [(''depth'', ''+.2em'')]
                         [mml ''menclose'' [(''notation'', ''bottom'')]
                           [mml ''mpadded''
                              [(''depth'', ''.1em''), (''height'', ''.8em''), (''width'', ''.8em'')]
                              (mml ''mspace'' [(''width'', ''.15em'')] [] # elems (children cell))]]]
                  else elems (children cell)))
            (enumerate 0 (mtds ks)))"

text \<open>\<^verbatim>\<open>m:mtr[not(preceding-sibling::*)][@class='msline']\<close>, priority 3.\<close>

definition ml_first_line :: "attrs \<Rightarrow> node list \<Rightarrow> node" where
  "ml_first_line as ks =
     mml ''mtr'' as
       (map (\<lambda>cell.
               mml ''mtd'' (node_attrs cell)
                 (if has_child ''mpadded'' cell
                  then [mml ''menclose'' [(''notation'', ''bottom'')]
                         [mml ''mpadded''
                            [(''depth'', ''.1em''), (''height'', ''1em''), (''width'', ''.5em'')]
                            [mml ''mspace'' [(''width'', ''.2em'')] []]]]
                  else []))
            (mtds ks))"

text \<open>
  Mode ml. \<open>prev\<close> says whether the node has a preceding element sibling, \<open>foll\<close> are its
  following siblings. By priority: the first line of a table (3), any other line row,
  which is dropped (2), a row followed by a line (0.5), \<^verbatim>\<open>m:none\<close> (0), the copying
  rule \<^verbatim>\<open>*\<close> (-0.5); text is copied by the built-in rule.
\<close>

fun ml :: "bool \<Rightarrow> node list \<Rightarrow> node \<Rightarrow> node list"
  and ml_list :: "bool \<Rightarrow> node list \<Rightarrow> node list" where
  "ml prev foll (Text s) = [Text s]"
| "ml prev foll (Element n t as ks) =
     (if n = MathML \<and> t = ''mtr'' \<and> attr as ''class'' = Some ''msline''
      then (if prev then [] else [ml_first_line as ks])
      else if n = MathML \<and> t = ''mtr'' \<and> list_ex (has_class ''msline'') (take 1 (elems foll))
      then [ml_underlined as ks (take 1 (elems foll))]
      else if n = MathML \<and> t = ''none'' then [mml ''mrow'' [] []]
      else [Element n t as (norm (ml_list False ks))])"
| "ml_list prev [] = []"
| "ml_list prev (k # ks) = ml prev ks k @ ml_list (prev \<or> is_elem k) ks"

subsection \<open>The table of an mstack\<close>

text \<open>
  The template for \<^verbatim>\<open>m:mstack\<close> first lowers the children to rows in mode mstack1
  (the fragment \<^verbatim>\<open>$t\<close>) and then lays the rows out. What follows is the second part, a
  function of \<^verbatim>\<open>$t\<close>.

  \<^verbatim>\<open>$maxl\<close> is the first of the \<^verbatim>\<open>@l\<close> after sorting them as numbers in descending
  order; the sort is stable and \<^verbatim>\<open>NaN\<close> is lower than every number.
\<close>

fun xless :: "xnum \<Rightarrow> xnum \<Rightarrow> bool" where
  "xless NaN (Num b) = True"
| "xless (Num a) (Num b) = (a < b)"
| "xless a NaN = False"

definition maxl_of :: "string list \<Rightarrow> string" where
  "maxl_of ls =
     (case ls of [] \<Rightarrow> []
      | l # rest \<Rightarrow> foldl (\<lambda>best x. if xless (xnumber best) (xnumber x) then x else best) l rest)"

text \<open>
  The carry entry \<^verbatim>\<open>$cy\<close> is a list of at most one cell of the carry row:
  \<^verbatim>\<open>$cy/*\<close>, \<^verbatim>\<open>string($cy/@k)\<close> and \<^verbatim>\<open>$cy/m:none\<close>.
\<close>

definition carry_content :: "node list \<Rightarrow> node list" where
  "carry_content cy = concat (map (\<lambda>x. elems (children x)) cy)"

definition carry_attr :: "node list \<Rightarrow> string \<Rightarrow> string" where
  "carry_attr cy k = (case cy of [] \<Rightarrow> [] | x # xs \<Rightarrow> attr_str (node_attrs x) k)"

definition zero_width :: "attrs \<Rightarrow> node list \<Rightarrow> node" where
  "zero_width as cy = mml ''mpadded'' as (carry_content cy)"

text \<open>The content of a cell of a row that has a carry row before it.\<close>

definition decorated :: "node list \<Rightarrow> node list \<Rightarrow> node list" where
  "decorated cy body =
     (let b = (if \<not> (carry_attr cy ''crossout'' \<noteq> [] \<or> carry_attr cy ''crossout'' = ''none'')
               then body
               else [mml ''menclose'' [(''notation'', carry_attr cy ''crossout'')] body]);
          loc = carry_attr cy ''location''
      in if list_ex (has_child ''none'') cy \<or> carry_content cy = [] then b
         else if loc = [] \<or> loc = ''n''
         then [mml ''mover'' [] (b @ [zero_width [(''width'', ''0em''), (''lspace'', ''-0.5width'')] cy])]
         else if loc = ''nw''
         then [mml ''mmultiscripts'' []
                 (b @ [mml ''mprescripts'' [] [], mml ''none'' [] [],
                       zero_width [(''lspace'', ''-1width''), (''width'', ''0em'')] cy])]
         else if loc = ''s''
         then [mml ''munder'' [] (b @ [zero_width [(''width'', ''0em''), (''lspace'', ''-0.5width'')] cy])]
         else if loc = ''sw''
         then [mml ''mmultiscripts'' []
                 (b @ [mml ''mprescripts'' [] [],
                       zero_width [(''lspace'', ''-1width''), (''width'', ''0em'')] cy,
                       mml ''none'' [] []])]
         else if loc = ''ne''
         then [mml ''msup'' [] (b @ [zero_width [(''width'', ''0em'')] cy])]
         else if loc = ''se''
         then [mml ''msub'' [] (b @ [zero_width [(''width'', ''0em'')] cy])]
         else if loc = ''w''
         then mml ''msup'' []
                [mml ''mrow'' [] [], zero_width [(''lspace'', ''-1width''), (''width'', ''0em'')] cy] # b
         else if loc = ''e''
         then b @ [mml ''msup'' [] [mml ''mrow'' [] [], zero_width [(''width'', ''0em'')] cy]]
         else b)"

text \<open>\<^verbatim>\<open>xsl:copy\<close> of a cell with its attributes and new content.\<close>

fun with_content :: "node \<Rightarrow> node list \<Rightarrow> node" where
  "with_content (Element n t as ks) new = Element n t as (norm new)"
| "with_content (Text s) new = Text s"

text \<open>
  One row of the table. \<open>kn\<close> and \<open>ke\<close> are the numbers of nodes and of elements of \<^verbatim>\<open>$t\<close>,
  \<open>c\<close> is the carry row just before the row (a list of at most one row).
\<close>

definition emit_row :: "nat \<Rightarrow> nat \<Rightarrow> string \<Rightarrow> node list \<Rightarrow> node \<Rightarrow> node" where
  "emit_row kn ke maxl c row =
     (let as = node_attrs row;
          cells = elems (children row);
          carries = elems (concat (map children c));
          offset = xsub (xnumber maxl) (xnumber (attr_str as ''l''));
          ldiff = xsub (xnumber (carry_attr c ''l'')) (xnumber (attr_str as ''l''));
          loffset = xsub (xnumber maxl) (xnumber (carry_attr c ''l''))
      in mml ''mtr'' (if attr as ''class'' = Some ''msline'' then [(''class'', ''msline'')] else [])
           (if attr as ''class'' = Some ''msline'' \<and> attr as ''l'' = Some ''*''
            then concat (replicate (count_upto kn (xnumber maxl)) (take 1 cells))
            else if c \<noteq> []
            then map (\<lambda>pn. mml ''mtd'' []
                        (if carry_content (nth_num carries (xsub (Num (of_nat pn)) loffset)) = []
                         then []
                         else [mml ''mover'' []
                                 [mml ''mphantom'' [] [mml ''mn'' [] [Text ''0'']],
                                  zero_width [(''width'', ''0em''), (''lspace'', ''-0.5width'')]
                                    (nth_num carries (xsub (Num (of_nat pn)) loffset))]]))
                     [1..<Suc (count_upto ke offset)]
                 @ map (\<lambda>(i, cell).
                          with_content cell
                            (decorated (nth_num carries (xadd (Num (of_nat (Suc i))) ldiff))
                               (elems (children cell))))
                       (enumerate 0 cells)
            else replicate (count_upto ke offset) (mml ''mtd'' [] []) @ cells))"

text \<open>
  The rows shown are
  \<^verbatim>\<open>*[not(@class='mscarries') or following-sibling::*[1]/@class='mscarries']\<close>; \<open>prev\<close> is
  the preceding row, if any.
\<close>

fun emit_rows :: "nat \<Rightarrow> nat \<Rightarrow> string \<Rightarrow> node list \<Rightarrow> node list \<Rightarrow> node list" where
  "emit_rows kn ke maxl prev [] = []"
| "emit_rows kn ke maxl prev (r # rs) =
     (if \<not> has_class ''mscarries'' r \<or> list_ex (has_class ''mscarries'') (take 1 rs)
      then [Text [CHR 0x0A], emit_row kn ke maxl (filter (has_class ''mscarries'') prev) r]
      else [])
     @ emit_rows kn ke maxl [r] rs"

text \<open>The fragment \<^verbatim>\<open>$m\<close>, and the result of the template: \<^verbatim>\<open>$m\<close> in mode ml.\<close>

definition mstack_table :: "attrs \<Rightarrow> node list \<Rightarrow> node" where
  "mstack_table as t =
     mml ''mtable''
       ([(''columnspacing'', ''0em''), (''rowspacing'', ''0em'')] @ copy_attr as ''align'')
       (emit_rows (sum_list (map count_nodes t)) (sum_list (map count_elems t))
          (maxl_of (concat (map (\<lambda>r. map snd (copy_attr (node_attrs r) ''l'')) (elems t))))
          [] (elems t))"

definition mstack_out :: "attrs \<Rightarrow> node list \<Rightarrow> node list" where
  "mstack_out as t = ml_list False [mstack_table as t]"

subsection \<open>The rows of mode mstack1 that do not recurse\<close>

definition the_align :: "ctx \<Rightarrow> string" where
  "the_align c = (if stackalign c = [] then ''decimalpoint'' else stackalign c)"

definition the_dp :: "ctx \<Rightarrow> string" where
  "the_dp c =
     (case decimalpoint c of None \<Rightarrow> ''.'' | Some v \<Rightarrow> if v = [] then ''.'' else v)"

text \<open>
  \<^verbatim>\<open>m:mn\<close>. The row starts as \<^verbatim>\<open><m:mtr l="$p">\<close>, an attribute whose value is the
  three characters as written (there are no braces around \<^verbatim>\<open>$p\<close>), and the
  \<^verbatim>\<open>xsl:choose\<close> replaces it for the alignments right, center and decimalpoint.
\<close>

definition mn_l :: "ctx \<Rightarrow> xnum \<Rightarrow> string \<Rightarrow> string" where
  "mn_l c p mn =
     (if the_align c = ''right'' \<or> (the_align c = ''decimalpoint'' \<and> \<not> contains mn (the_dp c))
      then xstring (xadd p (Num (of_nat (string_length mn))))
      else if the_align c = ''center''
      then xstring (xround (xdiv (xadd p (Num (of_nat (string_length mn)))) (Num 2)))
      else if the_align c = ''decimalpoint''
      then xstring (xadd p (Num (of_nat (string_length (substring_before mn (the_dp c))))))
      else ''$p'')"

definition mn_cell :: "string \<Rightarrow> node" where
  "mn_cell digit =
     mml ''mtd'' []
       ((if digit = ''.'' \<or> digit = '','' then [mml ''mspace'' [(''width'', ''.15em'')] []] else [])
        @ [mml ''mn'' [] [Text digit]])"

definition mn_row :: "ctx \<Rightarrow> xnum \<Rightarrow> string \<Rightarrow> node" where
  "mn_row c p text =
     (let mn = normalize_space text
      in mml ''mtr'' [(''l'', mn_l c p mn)]
           (map (\<lambda>pos. mn_cell (substring1 mn pos))
              [1..<Suc (count_upto (doc_nodes c) (Num (of_nat (string_length mn))))]))"

text \<open>\<^verbatim>\<open>m:msline\<close>.\<close>

definition line_is_max :: "attrs \<Rightarrow> bool" where
  "line_is_max as = (attr_str as ''length'' = [] \<or> xnumber (attr_str as ''length'') = Num 0)"

definition msline_l :: "ctx \<Rightarrow> xnum \<Rightarrow> attrs \<Rightarrow> string" where
  "msline_l c p as =
     (if line_is_max as then ''*''
      else if the_align c = ''right'' \<or> the_align c = ''decimalpoint''
      then xstring (xadd p (xnumber (attr_str as ''length'')))
      else xstring p)"

definition line_width :: "attrs \<Rightarrow> string" where
  "line_width as =
     (if attr as ''mslinethickness'' = Some ''thin'' then ''0.1em''
      else if attr as ''mslinethickness'' = Some ''medium'' then ''0.15em''
      else if attr as ''mslinethickness'' = Some ''thick'' then ''0.2em''
      else (case attr as ''mslinethickness'' of Some v \<Rightarrow> v | None \<Rightarrow> ''0.15em''))"

definition line_cell :: "string \<Rightarrow> string \<Rightarrow> node" where
  "line_cell cl w =
     mml ''mtd'' [(''class'', cl)]
       [mml ''mpadded'' [(''lspace'', ''-0.2em''), (''width'', ''0em''), (''height'', ''0em'')]
          [mml ''mfrac'' [(''linethickness'', w)]
             [mml ''mspace'' [(''width'', ''.5em'')] [], mml ''mrow'' [] []]]]"

definition msline_row :: "ctx \<Rightarrow> xnum \<Rightarrow> attrs \<Rightarrow> node" where
  "msline_row c p as =
     mml ''mtr'' [(''class'', ''msline''), (''l'', msline_l c p as)]
       (if line_is_max as then [line_cell ''mslinemax'' (line_width as)]
        else replicate (count_upto (doc_nodes c) (xnumber (attr_str as ''length'')))
               (line_cell ''msline'' (line_width as)))"

text \<open>
  \<^verbatim>\<open>m:msrow\<close>, given the rows \<^verbatim>\<open>$row\<close> of its children: the anchor \<^verbatim>\<open>$l1\<close> and the row
  that collects all cells.
\<close>

definition msrow_l1 :: "ctx \<Rightarrow> node list \<Rightarrow> node list \<Rightarrow> string" where
  "msrow_l1 c ks row =
     (if the_align c = ''decimalpoint'' \<and> list_ex (is_named MathML ''mn'') ks
      then (case filter (\<lambda>(i, r). is_named MathML ''mtr'' r
                                  \<and> list_ex (has_child ''mn'') (mtds (children r)))
                   (enumerate 0 (elems row)) of
              [] \<Rightarrow> []
            | (i, r) # rest \<Rightarrow>
                xstring (xadd (attr_sum (node_attrs r) ''l'')
                   (Num (of_nat (length (filter (\<lambda>x. attr (node_attrs x) ''l'' \<noteq> None)
                                           (take i (elems row))))))))
      else if the_align c = ''right'' \<or> the_align c = ''decimalpoint''
      then xstring (Num (of_nat (length
             (concat (map (\<lambda>r. mtds (children r)) (filter (is_named MathML ''mtr'') row))))))
      else ''0'')"

definition msrow_row :: "ctx \<Rightarrow> xnum \<Rightarrow> attrs \<Rightarrow> node list \<Rightarrow> node list \<Rightarrow> node" where
  "msrow_row c p as ks row =
     mml ''mtr''
       [(''class'', ''msrow''),
        (''l'', xstring (xadd (xadd (xnumber (msrow_l1 c ks row)) (attr_sum as ''position'')) p))]
       (concat (map (\<lambda>r. elems (children r)) (filter (is_named MathML ''mtr'') row)))"

text \<open>\<^verbatim>\<open>m:msgroup\<close>: the offset of the child at position \<open>i\<close> (from 1).\<close>

definition group_p :: "xnum \<Rightarrow> attrs \<Rightarrow> nat \<Rightarrow> xnum" where
  "group_p p as i =
     xadd (xadd p (attr_sum as ''position''))
          (xmul (Num (of_nat i - 1)) (attr_sum as ''shift''))"

text \<open>\<^verbatim>\<open>m:mscarries\<close>.\<close>

definition mscarries_l :: "ctx \<Rightarrow> xnum \<Rightarrow> attrs \<Rightarrow> node list \<Rightarrow> string" where
  "mscarries_l c p as ks =
     xstring (xadd (xadd p (if stackalign c = ''left'' then Num 0
                            else Num (of_nat (length (elems ks)))))
                   (attr_sum as ''position''))"

text \<open>The rule \<^verbatim>\<open>*\<close> of mode mstack1.\<close>

definition other_l :: "ctx \<Rightarrow> xnum \<Rightarrow> string" where
  "other_l c p = (if plain_left c then xstring p else xstring (xadd (Num 1) p))"

text \<open>Mode msc: the optional \<^verbatim>\<open>m:mstyle\<close> around a carry.\<close>

definition scaled :: "attrs \<Rightarrow> node list \<Rightarrow> node list" where
  "scaled pas content =
     (case attr pas ''scriptsizemultiplier'' of
        None \<Rightarrow> content
      | Some v \<Rightarrow>
          [mml ''mstyle''
             [(''mathsize'', xstring (xround (xdiv (xnumber v) (Num (7 / 1000)))) @ ''%'')]
             content])"

subsection \<open>Long division: the stack that is built, and what is put around it\<close>

text \<open>
  The stylesheet is a JavaScript template literal. In it \<^verbatim>\<open>'left/\right'\<close> holds the
  escape for a carriage return, which the XML parser turns into a space inside an
  attribute value, so that style is compared with \<^verbatim>\<open>left/ ight\<close>; and the escaped
  \<^verbatim>\<open><\<close> of the second operator of that branch leaves an empty \<^verbatim>\<open>m:mo\<close>.
\<close>

definition is_stacked :: "string option \<Rightarrow> bool" where
  "is_stacked style =
     (style = Some ''stackedrightright'' \<or> style = Some ''mediumstackedrightright''
      \<or> style = Some ''shortstackedrightright'' \<or> style = Some ''stackedleftleft'')"

definition mo :: "string \<Rightarrow> node" where
  "mo s = mml ''mo'' [] [Text s]"

definition length_of :: "node list \<Rightarrow> nat" where
  "length_of xs = string_length (concat (map string_value (take 1 xs)))"

definition longdiv_rows :: "string option \<Rightarrow> node list \<Rightarrow> node list" where
  "longdiv_rows style ks =
     (if style = Some ''left)(right''
      then [mml ''msrow'' []
              ([mml ''mrow'' [] (child ks 1), mo '')''] @ child ks 3 @ [mo ''(''] @ child ks 2)]
      else if style = Some ''left/ ight''
      then [mml ''msrow'' []
              ([mml ''mrow'' [] (child ks 1), mo ''/''] @ child ks 3 @ [mo []] @ child ks 2)]
      else if style = Some '':right=right''
      then [mml ''msrow'' [] (child ks 3 @ [mo '':''] @ child ks 1 @ [mo ''=''] @ child ks 2)]
      else if is_stacked style then child ks 3
      else if style = Some ''stackedleftlinetop''
      then child ks 2
           @ [mml ''msline'' [(''length'', xstring (Num (of_nat (length_of (child ks 3)))))] [],
              mml ''msrow'' []
                (mml ''mrow'' [] [mml ''menclose'' [(''notation'', ''bottom right'')] (child ks 1)]
                 # child ks 3)]
      else if style = Some ''righttop''
      then child ks 2
           @ [mml ''msline'' [(''length'', xstring (Num (of_nat (length_of (child ks 3)))))] [],
              mml ''msrow'' []
                (child ks 3
                 @ [mml ''menclose'' [(''notation'', ''top left bottom'')] (child ks 1)])]
      else child ks 2
           @ [mml ''msline'' [(''length'', xstring (Num (of_nat (length_of (child ks 3) + 1))))] [],
              mml ''msrow'' []
                ([mml ''mrow'' [] (child ks 1 @ [mml ''mspace'' [(''width'', ''.2em'')] []]),
                  mml ''mpadded''
                    [(''voffset'', ''.1em''), (''lspace'', ''-.15em''), (''depth'', ''-.2em''),
                     (''height'', ''-.2em'')]
                    [mml ''mo'' [(''minsize'', ''1.2em'')] [Text '')'']]]
                 @ child ks 3)])
     @ drop 3 (elems ks)"

text \<open>
  The fragment \<^verbatim>\<open>$ms\<close>: a new \<^verbatim>\<open>m:mstack\<close> with the nearest \<^verbatim>\<open>decimalpoint\<close> attribute
  (\<open>dpa\<close>, of the element itself or of an ancestor).
\<close>

definition longdiv_ms :: "string option \<Rightarrow> attrs \<Rightarrow> node list \<Rightarrow> node" where
  "longdiv_ms dpa as ks =
     mml ''mstack''
       ((case dpa of None \<Rightarrow> [] | Some v \<Rightarrow> [(''decimalpoint'', v)])
        @ (if is_stacked (attr as ''longdivstyle'') then [(''align'', ''top'')] else []))
       (longdiv_rows (attr as ''longdivstyle'') ks)"

text \<open>
  The divisor over the quotient, for the stacked styles. The cell of the quotient is
  written \<^verbatim>\<open><mtd>\<close> without prefix.
\<close>

definition divisor_table :: "string \<Rightarrow> node list \<Rightarrow> node" where
  "divisor_table notation ks =
     mml ''mtable'' [(''align'', ''top'')]
       [mml ''mtr'' [] [mml ''menclose'' [(''notation'', notation)] (child ks 1)],
        mml ''mtr'' [] [Element NoNS ''mtd'' [] (norm (child ks 2))]]"

text \<open>The result of the template, from the result \<open>out\<close> of the templates on \<^verbatim>\<open>$ms\<close>.\<close>

definition longdiv_wrap :: "attrs \<Rightarrow> node list \<Rightarrow> node list \<Rightarrow> node list" where
  "longdiv_wrap as ks out =
     (if attr as ''longdivstyle'' = Some ''stackedrightright''
      then [mml ''menclose'' [(''notation'', ''right'')] out, divisor_table ''bottom'' ks]
      else if attr as ''longdivstyle'' = Some ''mediumstackedrightright''
      then out @ [mml ''menclose'' [(''notation'', ''left'')] [divisor_table ''bottom'' ks]]
      else if attr as ''longdivstyle'' = Some ''shortstackedrightright''
      then out @ [divisor_table ''left bottom'' ks]
      else if attr as ''longdivstyle'' = Some ''stackedleftleft''
      then [divisor_table ''bottom'' ks, mml ''menclose'' [(''notation'', ''left'')] out]
      else out)"

section \<open>The stylesheet: the four modes that call each other\<close>

text \<open>
  For the termination of the templates: the number of \<^verbatim>\<open>m:mlongdiv\<close> elements of a
  tree (the stack built for a long division has fewer than the long division), and the
  two elements that mode rtl hands back to the default mode.
\<close>

fun nlongdiv :: "node \<Rightarrow> nat" where
  "nlongdiv (Text s) = 0"
| "nlongdiv (Element n t as ks) =
     (if n = MathML \<and> t = ''mlongdiv'' then 1 else 0) + sum_list (map nlongdiv ks)"

definition is_stack :: "node \<Rightarrow> bool" where
  "is_stack x = (is_named MathML ''mstack'' x \<or> is_named MathML ''mlongdiv'' x)"

text \<open>
  \<^verbatim>\<open>xsl:apply-templates\<close> on one node, in the default mode and in the modes rtl,
  mstack1 (with the parameter \<open>p\<close>) and msc (with the attributes \<open>pas\<close> of the parent
  \<^verbatim>\<open>m:mscarries\<close>). The context \<open>c\<close> describes the ancestors of the node. In each mode the
  branches stand in the order of the priorities of the templates: in the default mode
  \<^verbatim>\<open>m:mstack\<close> and \<^verbatim>\<open>m:mlongdiv\<close> (11), \<^verbatim>\<open>m:*[@dir='rtl']\<close> (10), \<^verbatim>\<open>*\<close>; in mode rtl
  \<^verbatim>\<open>m:mmultiscripts[not(m:mprescripts)]\<close> (3), the scripts and the table-like containers
  (2), the templates with a predicate (0.5), the templates for a name (0), \<^verbatim>\<open>*\<close>. Text
  nodes fall to the built-in rule, which copies them, but for the text templates of mode
  rtl.

  The template for \<^verbatim>\<open>m:mlongdiv\<close> applies the templates to the fragment \<^verbatim>\<open>$ms\<close>, a document
  of its own: its \<^verbatim>\<open>m:mstack\<close> has no ancestors.
\<close>

function apply_templates :: "ctx \<Rightarrow> node \<Rightarrow> node list"
  and apply_rtl :: "ctx \<Rightarrow> node \<Rightarrow> node list"
  and apply_mstack1 :: "ctx \<Rightarrow> xnum \<Rightarrow> node \<Rightarrow> node list"
  and apply_msc :: "ctx \<Rightarrow> attrs \<Rightarrow> node \<Rightarrow> node list"
where
  "apply_templates c (Text s) = [Text s]"
| "apply_templates c (Element n t as ks) =
     (if n = MathML \<and> t = ''mstack''
      then mstack_out as
             (norm (concat (map (apply_mstack1 (descend c n t as) (Num 0)) (elems ks))))
      else if n = MathML \<and> t = ''mlongdiv''
      then longdiv_wrap as ks
             (apply_templates
                (root_ctx (count_nodes (longdiv_ms (decimalpoint (descend c n t as)) as ks)))
                (longdiv_ms (decimalpoint (descend c n t as)) as ks))
      else if n = MathML \<and> attr as ''dir'' = Some ''rtl''
      then apply_rtl c (Element n t as ks)
      else [Element n t as (norm (concat (map (apply_templates (descend c n t as)) ks)))])"
| "apply_rtl c (Text s) = [Text (rtl_text s)]"
| "apply_rtl c (Element n t as ks) =
     (if n = MathML \<and> t = ''mmultiscripts''
      then (if \<not> list_ex (is_named MathML ''mprescripts'') ks
            then [mml ''mmultiscripts'' []
                    (concat (map (apply_rtl (descend c n t as)) (child ks 1))
                     @ [mml ''mprescripts'' [] []]
                     @ concat (map (apply_rtl (descend c n t as))
                         (pairs_desc (elems ks) (even_children (elems ks)))))]
            else [mml ''mmultiscripts'' []
                    (concat (map (apply_rtl (descend c n t as)) (child ks 1))
                     @ concat (map (apply_rtl (descend c n t as))
                         (pairs_desc (elems ks) (after_prescripts (elems ks))))
                     @ [mml ''mprescripts'' [] []]
                     @ concat (map (apply_rtl (descend c n t as))
                         (pairs_desc (elems ks) (before_prescripts (elems ks)))))])
      else if n = MathML \<and> (t = ''mtable'' \<or> t = ''munder'' \<or> t = ''mover'' \<or> t = ''munderover'')
      then [Element n t (rtl_attrs [] as)
              (norm (concat (map (apply_rtl (descend c n t as)) ks)))]
      else if n = MathML \<and> t = ''msup''
      then [mml ''mmultiscripts'' []
              (concat (map (apply_rtl (descend c n t as)) (child ks 1))
               @ [mml ''mprescripts'' [] [], mml ''none'' [] []]
               @ concat (map (apply_rtl (descend c n t as)) (child ks 2)))]
      else if n = MathML \<and> t = ''msub''
      then [mml ''mmultiscripts'' []
              (concat (map (apply_rtl (descend c n t as)) (child ks 1))
               @ [mml ''mprescripts'' [] []]
               @ concat (map (apply_rtl (descend c n t as)) (child ks 2))
               @ [mml ''none'' [] []])]
      else if n = MathML \<and> t = ''msubsup''
      then [mml ''mmultiscripts'' []
              (concat (map (apply_rtl (descend c n t as)) (child ks 1))
               @ [mml ''mprescripts'' [] []]
               @ concat (map (apply_rtl (descend c n t as)) (child ks 2))
               @ concat (map (apply_rtl (descend c n t as)) (child ks 3)))]
      else if n = MathML \<and> t = ''mfrac'' \<and> attr as ''bevelled'' = Some ''true''
      then [mml ''mrow'' []
              [mml ''msub'' []
                 (mml ''mi'' [] [] # concat (map (apply_rtl (descend c n t as)) (child ks 2))),
               mml ''mo'' [] [Text [CHR 0x5C]],
               mml ''msup'' []
                 (mml ''mi'' [] [] # concat (map (apply_rtl (descend c n t as)) (child ks 1)))]]
      else if n = MathML \<and> t = ''menclose'' \<and> attr as ''notation'' = Some ''madruwb''
      then [mml ''menclose'' [(''notation'', ''bottom right'')]
              (concat (map (apply_rtl (descend c n t as)) ks))]
      else if n = MathML \<and> t = ''mfrac''
      then [Element n t (rtl_attrs [] as)
              (norm (concat (map (apply_rtl (descend c n t as)) (elems ks))))]
      else if n = MathML \<and> t = ''mroot''
      then [mml ''msup'' []
              (mml ''menclose'' (rtl_attrs [(''notation'', ''top right'')] as)
                 (concat (map (apply_rtl (descend c n t as)) (child ks 1)))
               # concat (map (apply_rtl (descend c n t as)) (child ks 2)))]
      else if n = MathML \<and> t = ''msqrt''
      then [mml ''menclose'' (rtl_attrs [(''notation'', ''top right'')] as)
              (concat (map (apply_rtl (descend c n t as)) (child ks 1)))]
      else if n = MathML \<and> (t = ''mlongdiv'' \<or> t = ''mstack'')
      then [mml ''mrow'' [(''dir'', ''ltr'')] (apply_templates c (Element n t as ks))]
      else [Element n t (rtl_attrs [] as)
              (norm (concat (map (\<lambda>k. Text '' '' # apply_rtl (descend c n t as) k) (rev ks))))])"
| "apply_mstack1 c p (Text s) = [Text s]"
| "apply_mstack1 c p (Element n t as ks) =
     (if n = MathML \<and> t = ''msrow''
      then [Text [CHR 0x0A],
            msrow_row c p as ks
              (norm (concat (map (apply_mstack1 (descend c n t as) (Num 0)) (elems ks))))]
      else if n = MathML \<and> t = ''mn''
      then [mn_row c p (concat (map string_value ks))]
      else if n = MathML \<and> t = ''msgroup''
      then concat (map (\<lambda>ik. apply_mstack1 (descend c n t as) (group_p p as (Suc (fst ik))) (snd ik))
                     (enumerate 0 (elems ks)))
      else if n = MathML \<and> t = ''msline''
      then [msline_row c p as]
      else if n = MathML \<and> t = ''mscarries''
      then [mml ''mtr'' [(''class'', ''mscarries''), (''l'', mscarries_l c p as ks)]
              (concat (map (apply_msc (descend c n t as) as) (elems ks)))]
      else [mml ''mtr'' [(''l'', other_l c p)]
              [mml ''mtd'' [] (apply_templates c (Element n t as ks))]])"
| "apply_msc c pas (Text s) = [Text s]"
| "apply_msc c pas (Element n t as ks) =
     (if n = MathML \<and> t = ''mscarry''
      then [mml ''mtd'' (copy_attr as ''location'' @ copy_attr as ''crossout'')
              (scaled pas (concat (map (apply_templates (descend c n t as)) ks)))]
      else [mml ''mtd'' (copy_attr pas ''location'' @ copy_attr pas ''crossout'')
              (scaled pas (apply_templates c (Element n t as ks)))])"
  by pat_completeness auto

lemma in_elems: "x \<in> set (elems ks) \<Longrightarrow> x \<in> set ks"
  by (simp add: elems_def)

lemma in_child: "x \<in> set (child ks i) \<Longrightarrow> x \<in> set ks"
  by (auto simp: child_def dest!: in_set_takeD in_set_dropD in_elems)

lemma in_pairs_desc: "x \<in> set (pairs_desc (elems ks) js) \<Longrightarrow> x \<in> set ks"
  by (auto simp: pairs_desc_def dest!: in_set_takeD in_set_dropD in_elems)

lemma in_enumerate_elems: "ik \<in> set (enumerate k (elems ks)) \<Longrightarrow> snd ik \<in> set ks"
  by (cases ik) (auto simp: in_set_enumerate_eq intro!: in_elems nth_mem)

lemma count_nodes_kid: "x \<in> set ks \<Longrightarrow> count_nodes x \<le> sum_list (map count_nodes ks)"
  by (induction ks) auto

lemma nlongdiv_kid: "x \<in> set ks \<Longrightarrow> nlongdiv x \<le> sum_list (map nlongdiv ks)"
  by (induction ks) auto

lemma nlongdiv_norm: "sum_list (map nlongdiv (norm xs)) = sum_list (map nlongdiv xs)"
  by (induction xs rule: norm.induct) (auto split: list.splits node.splits)

lemma nlongdiv_elems: "sum_list (map nlongdiv (elems ks)) = sum_list (map nlongdiv ks)"
proof (induction ks)
  case Nil
  then show ?case by (simp add: elems_def)
next
  case (Cons k ks)
  then show ?case by (cases k) (simp_all add: elems_def)
qed

lemma nlongdiv_children:
  "sum_list (map nlongdiv (child ks 1)) + sum_list (map nlongdiv (child ks 2))
   + sum_list (map nlongdiv (child ks 3)) + sum_list (map nlongdiv (drop 3 (elems ks)))
   = sum_list (map nlongdiv ks)"
proof -
  have "sum_list (map nlongdiv (take 1 es)) + sum_list (map nlongdiv (take 1 (drop 1 es)))
        + sum_list (map nlongdiv (take 1 (drop 2 es))) + sum_list (map nlongdiv (drop 3 es))
        = sum_list (map nlongdiv es)" for es :: "node list"
  proof (cases es)
    case Nil
    then show ?thesis by simp
  next
    case (Cons a as)
    then show ?thesis
    proof (cases as)
      case Nil
      with Cons show ?thesis by simp
    next
      case (Cons b bs)
      with \<open>es = a # as\<close> show ?thesis by (cases bs) (simp_all add: numeral_3_eq_3)
    qed
  qed
  from this [of "elems ks"] show ?thesis
    by (simp add: child_def nlongdiv_elems numeral_2_eq_2)
qed

lemma nlongdiv_ms: "nlongdiv (longdiv_ms dpa as ks) \<le> sum_list (map nlongdiv ks)"
  using nlongdiv_children [of ks]
  by (simp add: longdiv_ms_def longdiv_rows_def nlongdiv_norm mo_def)

definition arg_node ::
  "(ctx \<times> node + ctx \<times> node) + (ctx \<times> xnum \<times> node + ctx \<times> attrs \<times> node) \<Rightarrow> node" where
  "arg_node a =
     (case a of Inl (Inl (c, x)) \<Rightarrow> x | Inl (Inr (c, x)) \<Rightarrow> x
      | Inr (Inl (c, p, x)) \<Rightarrow> x | Inr (Inr (c, pas, x)) \<Rightarrow> x)"

definition mode_rank ::
  "(ctx \<times> node + ctx \<times> node) + (ctx \<times> xnum \<times> node + ctx \<times> attrs \<times> node) \<Rightarrow> nat" where
  "mode_rank a =
     (case a of Inl (Inl (c, x)) \<Rightarrow> if is_stack x then 1 else 2
      | Inl (Inr (c, x)) \<Rightarrow> if is_stack x then 2 else 1
      | Inr b \<Rightarrow> 3)"

lemma kid_call:
  "x \<in> set ks \<Longrightarrow> arg_node a = x \<Longrightarrow> arg_node b = Element n t as ks \<Longrightarrow>
   (a, b) \<in> measures [\<lambda>a. nlongdiv (arg_node a), \<lambda>a. count_nodes (arg_node a), mode_rank]"
  using nlongdiv_kid [of x ks] count_nodes_kid [of x ks] by auto

lemma in_rev: "x \<in> set (rev ks) \<Longrightarrow> x \<in> set ks"
  by simp

lemmas kid_calls =
  kid_call kid_call [OF in_rev] kid_call [OF in_elems] kid_call [OF in_child] kid_call [OF in_pairs_desc]
  kid_call [OF in_enumerate_elems]

lemma stack_call:
  "n = MathML \<and> (t = ''mlongdiv'' \<or> t = ''mstack'') \<Longrightarrow>
   (Inl (Inl (c, Element n t as ks)), Inl (Inr (c', Element n t as ks)))
     \<in> measures [\<lambda>a. nlongdiv (arg_node a), \<lambda>a. count_nodes (arg_node a), mode_rank]"
  by (auto simp: arg_node_def mode_rank_def is_stack_def)

termination apply_templates
  apply (relation "measures [\<lambda>a. nlongdiv (arg_node a), \<lambda>a. count_nodes (arg_node a), mode_rank]")
  apply ((erule kid_calls; (simp add: arg_node_def; fail))
      | (simp add: arg_node_def mode_rank_def is_stack_def less_Suc_eq_le nlongdiv_ms; fail)
      | (erule stack_call))+
  done

declare apply_templates.simps(2) [simp del] apply_rtl.simps(2) [simp del]
  apply_mstack1.simps(2) [simp del] apply_msc.simps(2) [simp del]

text \<open>
  The transform of a document: the templates of the default mode on its document
  element.
\<close>

definition xslt :: "node \<Rightarrow> node list" where
  "xslt doc = apply_templates (root_ctx (count_nodes doc)) doc"

section \<open>Notions used in the statements\<close>

text \<open>
  A list of children as an XML parser delivers it: no empty text node, no two text
  nodes side by side.
\<close>

fun normalised :: "node list \<Rightarrow> bool" where
  "normalised [] = True"
| "normalised (Text s # ks) =
     (s \<noteq> [] \<and> (case ks of Text t # r \<Rightarrow> False | _ \<Rightarrow> True) \<and> normalised ks)"
| "normalised (Element n t as cs # ks) = normalised ks"

text \<open>A non-empty list of elements.\<close>

definition elements :: "node list \<Rightarrow> bool" where
  "elements xs = (xs \<noteq> [] \<and> list_all is_elem xs)"

text \<open>The anchor columns of rows of mode mstack1: their attributes \<^verbatim>\<open>l\<close>.\<close>

definition anchors :: "node list \<Rightarrow> string list" where
  "anchors rows = map (\<lambda>r. attr_str (node_attrs r) ''l'') (elems rows)"

text \<open>Mode rtl applied to a node and then to every node of the result.\<close>

definition mirror_twice :: "ctx \<Rightarrow> node \<Rightarrow> node list" where
  "mirror_twice c x = concat (map (apply_rtl c) (apply_rtl c x))"

text \<open>The context of the children of an \<^verbatim>\<open>m:mstack\<close> with the given \<^verbatim>\<open>stackalign\<close>.\<close>

definition stack_ctx :: "string \<Rightarrow> ctx" where
  "stack_ctx align = descend (root_ctx 4) MathML ''mstack'' [(''stackalign'', align)]"

text \<open>
  \<^verbatim>\<open><mlongdiv longdivstyle=":right=right"><mn>3</mn><mn>12</mn><mn>36</mn></mlongdiv>\<close>:
  divisor, quotient, dividend.
\<close>

definition longdiv_example :: node where
  "longdiv_example =
     Element MathML ''mlongdiv'' [(''longdivstyle'', '':right=right'')]
       [Element MathML ''mn'' [] [Text ''3''],
        Element MathML ''mn'' [] [Text ''12''],
        Element MathML ''mn'' [] [Text ''36'']]"

section \<open>Options, filters and the handler extension (mml3.ts)\<close>

text \<open>
  Option values are JavaScript values; the code only tests them for truthiness
  (\<^verbatim>\<open>if (args.document.options.enableMml3)\<close>, \<^verbatim>\<open>if (!jax.options._mml3)\<close>).
  A missing key reads as \<^verbatim>\<open>undefined\<close>.
\<close>

datatype jsval = JUndefined | JBool bool | JNum int | JStr string

fun truthy :: "jsval \<Rightarrow> bool" where
  "truthy JUndefined = False"
| "truthy (JBool b) = b"
| "truthy (JNum n) = (n \<noteq> 0)"
| "truthy (JStr s) = (s \<noteq> [])"

type_synonym OptionList = "string \<rightharpoonup> jsval"

definition opt :: "OptionList \<Rightarrow> string \<Rightarrow> jsval" where
  "opt os k = (case os k of None \<Rightarrow> JUndefined | Some v \<Rightarrow> v)"

record MathDocument =
  options :: OptionList

text \<open>
  \<^verbatim>\<open>FILTERDATA = {math, document, data}\<close>; the tree type \<open>'n\<close> and the math item
  type \<open>'m\<close> are those of the host.
\<close>

record ('m, 'n) FILTERDATA =
  math :: 'm
  document :: MathDocument
  data :: 'n

text \<open>
  \<^verbatim>\<open>Mml3.mmlFilter\<close>. The field \<^verbatim>\<open>this.transform\<close> is set by the constructor from the
  XSLT engine of the platform; it is the parameter \<open>transform\<close>.
\<close>

definition mmlFilter ::
  "('n \<Rightarrow> MathDocument \<Rightarrow> 'n) \<Rightarrow> ('m, 'n) FILTERDATA \<Rightarrow> ('m, 'n) FILTERDATA" where
  "mmlFilter transform args =
     (if truthy (opt (options (document args)) ''enableMml3'')
      then args\<lparr>data := transform (data args) (document args)\<rparr>
      else args)"

text \<open>
  The static \<^verbatim>\<open>OPTIONS\<close> of the extended document class:
  \<^verbatim>\<open>{...handler.documentClass.OPTIONS, enableMml3: true}\<close>.
\<close>

definition Mml3_OPTIONS :: "OptionList \<Rightarrow> OptionList" where
  "Mml3_OPTIONS base = base(''enableMml3'' \<mapsto> JBool True)"

text \<open>
  Input jax are objects shared between documents, so they live in a store indexed by
  address. A filter added by the extension is the \<^verbatim>\<open>mmlFilter\<close> of a fresh \<^verbatim>\<open>Mml3\<close>
  object bound to the document under construction (identified by a number).
\<close>

datatype filter = Mml3Filter nat | HostFilter nat

record jax =
  name :: string
  jax_options :: OptionList
  mmlFilters :: "filter list"

type_synonym store = "nat \<Rightarrow> jax"

text \<open>
  The loop of the constructor of the extended document class (it runs after the
  constructor of the host's document class), over the addresses in
  \<^verbatim>\<open>this.inputJax || []\<close>: the first jax named MathML gets the filter unless its
  option \<^verbatim>\<open>_mml3\<close> is truthy, and the loop stops there (\<^verbatim>\<open>break\<close>).
\<close>

fun add_prefilter :: "nat \<Rightarrow> nat list \<Rightarrow> store \<Rightarrow> store" where
  "add_prefilter d [] st = st"
| "add_prefilter d (a # as) st =
     (if name (st a) = ''MathML''
      then (if \<not> truthy (opt (jax_options (st a)) ''_mml3'')
            then st(a := (st a)\<lparr>jax_options := (jax_options (st a))(''_mml3'' \<mapsto> JBool True),
                                mmlFilters := mmlFilters (st a) @ [Mml3Filter d]\<rparr>)
            else st)
      else add_prefilter d as st)"

text \<open>
  Constructing a document: \<open>inputJax\<close> is \<open>None\<close> when \<^verbatim>\<open>this.inputJax\<close> is undefined.
\<close>

definition Mml3_constructor :: "nat \<times> nat list option \<Rightarrow> store \<Rightarrow> store" where
  "Mml3_constructor doc st =
     add_prefilter (fst doc) (case snd doc of None \<Rightarrow> [] | Some js \<Rightarrow> js) st"

definition construct_all :: "(nat \<times> nat list option) list \<Rightarrow> store \<Rightarrow> store" where
  "construct_all docs st = foldl (\<lambda>s doc. Mml3_constructor doc s) st docs"

fun is_mml3 :: "filter \<Rightarrow> bool" where
  "is_mml3 (Mml3Filter d) = True"
| "is_mml3 (HostFilter h) = False"

definition mml3_count :: "jax \<Rightarrow> nat" where
  "mml3_count j = length (filter is_mml3 (mmlFilters j))"

definition flagged :: "jax \<Rightarrow> bool" where
  "flagged j = truthy (opt (jax_options j) ''_mml3'')"

section \<open>Properties of the stylesheet\<close>

subsection \<open>Results of the default mode and of mode rtl are elements\<close>

lemma rtl_single: "\<exists>n' t' as' ks'. apply_rtl c (Element n t as ks) = [Element n' t' as' ks']"
  by (simp add: apply_rtl.simps(2))

lemma mstack_out_elements: "elements (mstack_out as t)"
  by (simp add: mstack_out_def mstack_table_def elements_def)

lemma templates_elements: "elements (apply_templates c (Element n t as ks))"
proof -
  have "elements (apply_templates c' (longdiv_ms d as ks))" for c' d
    using mstack_out_elements by (simp add: longdiv_ms_def apply_templates.simps(2))
  then have "elements (longdiv_wrap as ks (apply_templates c' (longdiv_ms d as ks)))" for c' d
    by (simp add: longdiv_wrap_def divisor_table_def elements_def)
  moreover have "elements (apply_rtl c (Element n t as ks))"
    using rtl_single [of c n t as ks] by (auto simp: elements_def)
  ultimately show ?thesis
    using mstack_out_elements by (auto simp: apply_templates.simps(2) elements_def)
qed

lemma norm_elems: "list_all is_elem es \<Longrightarrow> norm (es @ ys) = es @ norm ys"
proof (induction es)
  case Nil
  then show ?case by simp
next
  case (Cons e es)
  then show ?case by (cases e) simp_all
qed

lemma norm_singles: "list_all is_elem es \<Longrightarrow> norm es = es"
  using norm_elems [of es "[]"] by simp

lemma norm_text_elems:
  assumes "s \<noteq> []" and "elements es"
  shows "norm (Text s # es @ ys) = Text s # es @ norm ys"
proof -
  from assms obtain n t as ks es' where es: "es = Element n t as ks # es'"
    by (cases es; cases "hd es") (auto simp: elements_def)
  with assms have "norm (es @ ys) = Element n t as ks # es' @ norm ys"
    using norm_elems [of es ys] by (simp add: elements_def)
  with assms es show ?thesis by simp
qed

lemma norm_templates:
  "normalised ks \<Longrightarrow>
   norm (concat (map (apply_templates c) ks)) = concat (map (apply_templates c) ks)"
proof (induction ks)
  case Nil
  then show ?case by simp
next
  case (Cons k ks)
  show ?case
  proof (cases k)
    case (Element n t as cs)
    with Cons show ?thesis
      using norm_elems [of "apply_templates c k" "concat (map (apply_templates c) ks)"]
        templates_elements [of c n t as cs]
      by (simp add: elements_def)
  next
    case (Text s)
    with Cons.prems have s: "s \<noteq> []" and nks: "normalised ks" by simp_all
    note ih = Cons.IH [OF nks]
    show ?thesis
    proof (cases ks)
      case Nil
      with Text s show ?thesis by simp
    next
      case (Cons k' ks')
      with Cons.prems Text obtain n t as cs where k': "k' = Element n t as cs"
        by (cases k') auto
      let ?es = "apply_templates c k'" and ?ys = "concat (map (apply_templates c) ks')"
      have es: "elements ?es"
        using templates_elements [of c n t as cs] k' by simp
      then have "norm (?es @ ?ys) = ?es @ norm ?ys"
        using norm_elems [of ?es ?ys] by (simp add: elements_def)
      with ih Cons have "norm ?ys = ?ys" by simp
      with norm_text_elems [OF s es, of ?ys] Text Cons show ?thesis by simp
    qed
  qed
qed

subsection \<open>The default rule\<close>

text \<open>
  C3. An element that no rule of the default mode with a higher priority matches (it
  is not an \<^verbatim>\<open>m:mstack\<close>, not an \<^verbatim>\<open>m:mlongdiv\<close> and not a MathML element with
  \<^verbatim>\<open>dir="rtl"\<close>) is copied with its name and its attributes, and its content is made of
  the results of the templates on its children, in the order of the children. For
  children as a parser delivers them, the content is exactly the concatenation of those
  results.
\<close>

theorem default_rule_copies:
  assumes "\<not> (n = MathML \<and> (t = ''mstack'' \<or> t = ''mlongdiv'' \<or> attr as ''dir'' = Some ''rtl''))"
  shows "apply_templates c (Element n t as ks)
           = [Element n t as (norm (concat (map (apply_templates (descend c n t as)) ks)))] \<and>
         (normalised ks \<longrightarrow>
            apply_templates c (Element n t as ks)
              = [Element n t as (concat (map (apply_templates (descend c n t as)) ks))])"
  using assms norm_templates [of ks "descend c n t as"]
  by (auto simp: apply_templates.simps(2))

theorem default_rule_copies_witness:
  "apply_templates (root_ctx 5)
     (Element MathML ''mrow'' [(''id'', ''a'')]
        [Element MathML ''mi'' [] [Text ''x''], Text ''+'', Element MathML ''mn'' [] [Text ''1'']])
   = [Element MathML ''mrow'' [(''id'', ''a'')]
        [Element MathML ''mi'' [] [Text ''x''], Text ''+'', Element MathML ''mn'' [] [Text ''1'']]]"
  using default_rule_copies [of MathML "''mrow''" "[(''id'', ''a'')]" "root_ctx 5"
      "[Element MathML ''mi'' [] [Text ''x''], Text ''+'', Element MathML ''mn'' [] [Text ''1'']]"]
  by (simp add: attr_def apply_templates.simps(2))

subsection \<open>Mode rtl\<close>

text \<open>
  C6. In mode rtl an \<^verbatim>\<open>m:msup\<close> becomes an \<^verbatim>\<open>m:mmultiscripts\<close> without attributes whose
  children are the mirrored first child (the base), \<^verbatim>\<open>m:mprescripts\<close>, \<^verbatim>\<open>m:none\<close> in
  the place of the pre-subscript, and the mirrored second child (the superscript) as
  pre-superscript.
\<close>

theorem msup_mirrored:
  "apply_rtl c (Element MathML ''msup'' as ks)
     = [Element MathML ''mmultiscripts'' []
          (concat (map (apply_rtl (descend c MathML ''msup'' as)) (child ks 1))
           @ [Element MathML ''mprescripts'' [] [], Element MathML ''none'' [] []]
           @ concat (map (apply_rtl (descend c MathML ''msup'' as)) (child ks 2)))] \<and>
   (elems ks = [b, s] \<longrightarrow>
      apply_rtl c (Element MathML ''msup'' as ks)
        = [Element MathML ''mmultiscripts'' []
             (apply_rtl (descend c MathML ''msup'' as) b
              @ [Element MathML ''mprescripts'' [] [], Element MathML ''none'' [] []]
              @ apply_rtl (descend c MathML ''msup'' as) s)])"
proof -
  let ?c = "descend c MathML ''msup'' as"
  have el: "list_all is_elem (concat (map (apply_rtl ?c) (child ks i)))" for i
  proof -
    have "list_all is_elem (apply_rtl ?c x)" if "x \<in> set (elems ks)" for x
    proof (cases x)
      case (Text s)
      with that show ?thesis by (simp add: elems_def)
    next
      case (Element n t as' ks')
      with rtl_single [of ?c n t as' ks'] show ?thesis by auto
    qed
    then show ?thesis
      by (auto simp: child_def list_all_iff dest!: in_set_takeD in_set_dropD)
  qed
  have "list_all is_elem
          (concat (map (apply_rtl ?c) (child ks 1))
           @ [Element MathML ''mprescripts'' [] [], Element MathML ''none'' [] []]
           @ concat (map (apply_rtl ?c) (child ks 2)))"
    using el [of 1] el [of 2] by simp
  from norm_singles [OF this] have "apply_rtl c (Element MathML ''msup'' as ks)
     = [Element MathML ''mmultiscripts'' []
          (concat (map (apply_rtl ?c) (child ks 1))
           @ [Element MathML ''mprescripts'' [] [], Element MathML ''none'' [] []]
           @ concat (map (apply_rtl ?c) (child ks 2)))]"
    by (simp add: apply_rtl.simps(2))
  then show ?thesis by (simp add: child_def)
qed

theorem msup_mirrored_witness:
  "apply_rtl (root_ctx 5)
     (Element MathML ''msup'' []
        [Element MathML ''mi'' [] [Text ''x''], Element MathML ''mn'' [] [Text ''2'']])
   = [Element MathML ''mmultiscripts'' []
        [Element MathML ''mi'' [] [Text '' x''],
         Element MathML ''mprescripts'' [] [], Element MathML ''none'' [] [],
         Element MathML ''mn'' [] [Text '' 2'']]]"
proof -
  have "apply_rtl (descend (root_ctx 5) MathML ''msup'' []) (Element MathML ''mi'' [] [Text ''x''])
          = [Element MathML ''mi'' [] [Text '' x'']]"
    and "apply_rtl (descend (root_ctx 5) MathML ''msup'' []) (Element MathML ''mn'' [] [Text ''2''])
          = [Element MathML ''mn'' [] [Text '' 2'']]"
    by code_simp+
  with msup_mirrored [of "root_ctx 5" "[]"
      "[Element MathML ''mi'' [] [Text ''x''], Element MathML ''mn'' [] [Text ''2'']]"
      "Element MathML ''mi'' [] [Text ''x'']" "Element MathML ''mn'' [] [Text ''2'']"]
  show ?thesis by (simp add: elems_def child_def)
qed

text \<open>
  C7. A text node in mode rtl: the parentheses, the braces, the signs \<^verbatim>\<open><\<close> and
  \<^verbatim>\<open>>\<close>, and U+2208 and U+220B are exchanged with their partners; any other text is
  copied.
\<close>

theorem mirrored_text:
  "apply_rtl c (Text ''('') = [Text '')''] \<and> apply_rtl c (Text '')'') = [Text ''(''] \<and>
   apply_rtl c (Text ''{'') = [Text ''}''] \<and> apply_rtl c (Text ''}'') = [Text ''{''] \<and>
   apply_rtl c (Text ''<'') = [Text ''>''] \<and> apply_rtl c (Text ''>'') = [Text ''<''] \<and>
   apply_rtl c (Text elem_of) = [Text contains_member] \<and>
   apply_rtl c (Text contains_member) = [Text elem_of] \<and>
   (s \<notin> {''('', '')'', ''{'', ''}'', ''<'', ''>'', elem_of, contains_member} \<longrightarrow>
      apply_rtl c (Text s) = [Text s])"
  by (simp add: rtl_text_def elem_of_def contains_member_def)

theorem mirrored_text_witness:
  "apply_rtl (root_ctx 1) (Text ''['') = [Text ''['']"
  using mirrored_text [of "root_ctx 1" "''[''"]
  by (simp add: elem_of_def contains_member_def)

text \<open>
  C8. In mode rtl an \<^verbatim>\<open>m:mstack\<close> or \<^verbatim>\<open>m:mlongdiv\<close> is not mirrored: the result is an
  \<^verbatim>\<open>m:mrow\<close> with \<^verbatim>\<open>dir="ltr"\<close> around the result of the default mode on the same node,
  and the default mode on that node is the template for \<^verbatim>\<open>m:mstack\<close>, respectively
  \<^verbatim>\<open>m:mlongdiv\<close>, whatever its attributes.
\<close>

theorem stack_not_mirrored:
  assumes "t = ''mstack'' \<or> t = ''mlongdiv''"
  shows "apply_rtl c (Element MathML t as ks)
           = [Element MathML ''mrow'' [(''dir'', ''ltr'')]
                (apply_templates c (Element MathML t as ks))] \<and>
         apply_templates c (Element MathML ''mstack'' as ks)
           = mstack_out as
               (norm (concat (map (apply_mstack1 (descend c MathML ''mstack'' as) (Num 0))
                                  (elems ks)))) \<and>
         apply_templates c (Element MathML ''mlongdiv'' as ks)
           = longdiv_wrap as ks
               (apply_templates
                  (root_ctx (count_nodes
                     (longdiv_ms (decimalpoint (descend c MathML ''mlongdiv'' as)) as ks)))
                  (longdiv_ms (decimalpoint (descend c MathML ''mlongdiv'' as)) as ks))"
proof -
  have "norm (apply_templates c (Element MathML t as ks)) = apply_templates c (Element MathML t as ks)"
    using templates_elements [of c MathML t as ks] norm_singles by (simp add: elements_def)
  with assms show ?thesis
    by (auto simp: apply_rtl.simps(2) apply_templates.simps(2))
qed

theorem stack_not_mirrored_witness:
  "apply_rtl (root_ctx 3) (Element MathML ''mstack'' [] [Element MathML ''mn'' [] [Text ''7'']])
   = [Element MathML ''mrow'' [(''dir'', ''ltr'')]
        [Element MathML ''mtable'' [(''columnspacing'', ''0em''), (''rowspacing'', ''0em'')]
           [Text [CHR 0x0A],
            Element MathML ''mtr'' []
              [Element MathML ''mtd'' [] [Element MathML ''mn'' [] [Text ''7'']]]]]]"
proof -
  have "apply_templates (root_ctx 3)
          (Element MathML ''mstack'' [] [Element MathML ''mn'' [] [Text ''7'']])
        = [Element MathML ''mtable'' [(''columnspacing'', ''0em''), (''rowspacing'', ''0em'')]
             [Text [CHR 0x0A],
              Element MathML ''mtr'' []
                [Element MathML ''mtd'' [] [Element MathML ''mn'' [] [Text ''7'']]]]]"
    by code_simp
  with stack_not_mirrored [of "''mstack''" "root_ctx 3" "[]"
      "[Element MathML ''mn'' [] [Text ''7'']]"]
  show ?thesis by simp
qed

text \<open>
  C2, as stated, fails: the rule \<^verbatim>\<open>*\<close> of mode rtl puts a space before every child, so
  \<^verbatim>\<open><mo>(</mo>\<close> becomes \<^verbatim>\<open><mo> )</mo>\<close> and then, the text no longer being a
  parenthesis alone, \<^verbatim>\<open><mo>  )</mo>\<close>; and an \<^verbatim>\<open>m:msup\<close> becomes an
  \<^verbatim>\<open>m:mmultiscripts\<close>, which stays one.
\<close>

theorem mirror_twice_counterexample:
  "mirror_twice (root_ctx 2) (Element MathML ''mo'' [] [Text ''(''])
     = [Element MathML ''mo'' [] [Text ''  )'']] \<and>
   mirror_twice (root_ctx 2) (Element MathML ''mo'' [] [Text ''(''])
     \<noteq> [Element MathML ''mo'' [] [Text ''('']] \<and>
   mirror_twice (root_ctx 5)
       (Element MathML ''msup'' []
          [Element MathML ''mi'' [] [Text ''x''], Element MathML ''mn'' [] [Text ''2'']])
     \<noteq> [Element MathML ''msup'' []
          [Element MathML ''mi'' [] [Text ''x''], Element MathML ''mn'' [] [Text ''2'']]]"
  by code_simp

lemma flip_fence_twice: "flip_fence (flip_fence v) = v"
  by (simp add: flip_fence_def)

text \<open>
  C2, amended. Mirroring twice gives back every text node, and mirroring the fence
  attributes \<^verbatim>\<open>open\<close> and \<^verbatim>\<open>close\<close> of an element twice gives them back.
\<close>

theorem mirror_twice_text_and_fences:
  "mirror_twice c (Text s) = [Text s] \<and>
   rtl_attrs [] (rtl_attrs [] [(''open'', a), (''close'', b)]) = [(''open'', a), (''close'', b)]"
  by (simp add: mirror_twice_def rtl_text_def elem_of_def contains_member_def
      rtl_attrs_def rtl_attr_def add_attrs_def flip_fence_twice)

subsection \<open>Anchor columns\<close>

lemma anchors_single: "anchors [Element n t as ks] = [attr_str as ''l'']"
  by (simp add: anchors_def elems_def)

lemma attr_str_l: "attr_str [(''class'', cl), (''l'', v)] ''l'' = v"
  by (simp add: attr_str_def attr_def)

text \<open>
  C4, as stated, fails: the anchor of a line with a length depends on the alignment.
  In a stack aligned left, a line of length 3 at offset 0 is anchored at 0, not at 3.
\<close>

theorem msline_anchor_counterexample:
  "anchors (apply_mstack1 (stack_ctx ''left'') (Num 0)
              (Element MathML ''msline'' [(''length'', ''3'')] [])) = [''0''] \<and>
   xstring (xadd (Num 0) (xnumber ''3'')) = ''3''"
  by code_simp

text \<open>
  C4, amended. The anchor of an \<^verbatim>\<open>m:msline\<close> lowered at offset \<open>p\<close> is the marker
  \<^verbatim>\<open>*\<close> when its length is absent, empty or zero; else it is \<open>p\<close> plus the length when
  the stack is aligned right or at the decimal point (the default), and \<open>p\<close> for every
  other alignment.
\<close>

theorem msline_anchor:
  "anchors (apply_mstack1 c p (Element MathML ''msline'' as ks))
     = [if attr as ''length'' = None \<or> attr as ''length'' = Some []
           \<or> xnumber (attr_str as ''length'') = Num 0
        then ''*''
        else if stackalign c = ''right'' \<or> stackalign c = ''decimalpoint'' \<or> stackalign c = []
        then xstring (xadd p (xnumber (attr_str as ''length'')))
        else xstring p]"
proof -
  have "anchors (apply_mstack1 c p (Element MathML ''msline'' as ks)) = [msline_l c p as]"
    by (simp add: apply_mstack1.simps(2) msline_row_def anchors_single attr_str_l)
  moreover have "line_is_max as \<longleftrightarrow>
      attr as ''length'' = None \<or> attr as ''length'' = Some []
      \<or> xnumber (attr_str as ''length'') = Num 0"
    by (cases "attr as ''length''") (simp_all add: line_is_max_def attr_str_def)
  ultimately show ?thesis
    by (simp add: msline_l_def the_align_def)
qed

theorem msline_anchor_witness:
  "anchors (apply_mstack1 (stack_ctx ''right'') (Num 2)
              (Element MathML ''msline'' [(''length'', ''3'')] [])) = [''5''] \<and>
   anchors (apply_mstack1 (stack_ctx ''right'') (Num 2) (Element MathML ''msline'' [] [])) = [''*'']"
proof -
  have "xstring (xadd (Num 2) (xnumber ''3'')) = ''5''" and "xnumber ''3'' \<noteq> Num 0"
    by code_simp+
  with msline_anchor [of "stack_ctx ''right''" "Num 2" "[(''length'', ''3'')]" "[]"]
    msline_anchor [of "stack_ctx ''right''" "Num 2" "[]" "[]"]
  show ?thesis by (simp add: attr_def attr_str_def stack_ctx_def descend_def root_ctx_def)
qed

text \<open>
  C5. The anchor of an \<^verbatim>\<open>m:mn\<close> with the normalised text \<open>mn\<close>, lowered at offset
  \<open>p\<close>, for the alignments right, decimalpoint (the default) and center.
\<close>

lemma mn_anchor:
  "anchors (apply_mstack1 c p (Element MathML ''mn'' as ks))
     = [mn_l c p (normalize_space (concat (map string_value ks)))]"
  by (simp add: apply_mstack1.simps(2) mn_row_def Let_def anchors_single attr_str_def attr_def)

lemma mn_anchor_right:
  "stackalign c = ''right'' \<Longrightarrow> mn_l c p mn = xstring (xadd p (Num (of_nat (string_length mn))))"
  by (simp add: mn_l_def the_align_def)

lemma mn_anchor_decimalpoint:
  "stackalign c = ''decimalpoint'' \<or> stackalign c = [] \<Longrightarrow>
   mn_l c p mn =
     (if contains mn (the_dp c)
      then xstring (xadd p (Num (of_nat (string_length (substring_before mn (the_dp c))))))
      else xstring (xadd p (Num (of_nat (string_length mn)))))"
  by (auto simp: mn_l_def the_align_def)

lemma mn_anchor_center:
  "stackalign c = ''center'' \<Longrightarrow>
   mn_l c p mn = xstring (xround (xdiv (xadd p (Num (of_nat (string_length mn)))) (Num 2)))"
  by (simp add: mn_l_def the_align_def)

text \<open>
  C5, left alignment. The claim gives the anchor \<open>p\<close>; the template leaves the attribute
  at its initial value, the text \<^verbatim>\<open>$p\<close>, which is not a number. For the numeral 12 in
  a stack aligned left, at offset 0:
\<close>

theorem mn_anchor_left:
  "anchors (apply_mstack1 (stack_ctx ''left'') (Num 0) (Element MathML ''mn'' [] [Text ''12'']))
     = [''$p''] \<and>
   xnumber ''$p'' = NaN \<and> xstring (Num 0) = ''0''"
  by code_simp

subsection \<open>Long division\<close>

text \<open>
  C1, as stated, fails: the result for the example is a table, the result of the
  template for \<^verbatim>\<open>m:mstack\<close> on the stack that the template for \<^verbatim>\<open>m:mlongdiv\<close> builds.
\<close>

theorem longdiv_example_counterexample:
  "map node_tag (xslt longdiv_example) = [''mtable'']"
  by code_simp

text \<open>
  C1, amended. The result for the example is one \<^verbatim>\<open>m:mtable\<close> with one row, whose
  cells hold, in this order, the digits 3 and 6 of the dividend, the operator
  \<^verbatim>\<open>:\<close>, the digit 3 of the divisor, the operator \<^verbatim>\<open>=\<close>, and the digits 1 and 2 of the
  quotient.
\<close>

theorem longdiv_example_table:
  "xslt longdiv_example =
     [Element MathML ''mtable'' [(''columnspacing'', ''0em''), (''rowspacing'', ''0em'')]
        [Text [CHR 0x0A],
         Element MathML ''mtr'' []
           [Element MathML ''mtd'' [] [Element MathML ''mn'' [] [Text ''3'']],
            Element MathML ''mtd'' [] [Element MathML ''mn'' [] [Text ''6'']],
            Element MathML ''mtd'' [] [Element MathML ''mo'' [] [Text '':'']],
            Element MathML ''mtd'' [] [Element MathML ''mn'' [] [Text ''3'']],
            Element MathML ''mtd'' [] [Element MathML ''mo'' [] [Text ''='']],
            Element MathML ''mtd'' [] [Element MathML ''mn'' [] [Text ''1'']],
            Element MathML ''mtd'' [] [Element MathML ''mn'' [] [Text ''2'']]]]]"
  by code_simp

section \<open>Properties of the filter and the handler extension\<close>

lemma add_prefilter_step:
  "(flagged (st a) \<longrightarrow> add_prefilter d js st a = st a) \<and>
   (add_prefilter d js st a = st a \<or>
    (flagged (add_prefilter d js st a) \<and>
     mml3_count (add_prefilter d js st a) = Suc (mml3_count (st a))))"
  by (induction js) (auto simp: flagged_def mml3_count_def opt_def)

lemma construct_all_flagged:
  "flagged (st a) \<Longrightarrow> construct_all docs st a = st a"
proof (induction docs arbitrary: st)
  case Nil
  then show ?case by (simp add: construct_all_def)
next
  case (Cons doc docs)
  have "Mml3_constructor doc st a = st a"
    using Cons.prems add_prefilter_step [of st a] by (simp add: Mml3_constructor_def)
  with Cons show ?case by (simp add: construct_all_def)
qed

lemma construct_all_count:
  "construct_all docs st a = st a \<or>
   (flagged (construct_all docs st a) \<and>
    mml3_count (construct_all docs st a) = Suc (mml3_count (st a)))"
proof (induction docs arbitrary: st)
  case Nil
  then show ?case by (simp add: construct_all_def)
next
  case (Cons doc docs)
  let ?st1 = "Mml3_constructor doc st"
  have all: "construct_all (doc # docs) st = construct_all docs ?st1"
    by (simp add: construct_all_def)
  from add_prefilter_step [of st a "fst doc" "case snd doc of None \<Rightarrow> [] | Some js \<Rightarrow> js"]
  consider "?st1 a = st a"
    | "flagged (?st1 a)" "mml3_count (?st1 a) = Suc (mml3_count (st a))"
    by (auto simp: Mml3_constructor_def)
  then show ?case
  proof cases
    case 1
    with Cons.IH [of ?st1] all show ?thesis by simp
  next
    case 2
    with construct_all_flagged [of ?st1 a docs] all show ?thesis by simp
  qed
qed

text \<open>
  C9. The filter is gated by the option \<^verbatim>\<open>enableMml3\<close>, which the extended document
  class sets to true by default: when the option is falsy the filter returns its
  argument unchanged (so \<^verbatim>\<open>args.data\<close> is the input tree), and when it is truthy
  \<^verbatim>\<open>args.data\<close> becomes the transform of the input tree and nothing else changes.
\<close>

theorem mmlFilter_gated:
  "opt (Mml3_OPTIONS base) ''enableMml3'' = JBool True \<and>
   (\<not> truthy (opt (options (document args)) ''enableMml3'') \<longrightarrow>
      mmlFilter transform args = args) \<and>
   (truthy (opt (options (document args)) ''enableMml3'') \<longrightarrow>
      mmlFilter transform args = args\<lparr>data := transform (data args) (document args)\<rparr>)"
  by (simp add: mmlFilter_def Mml3_OPTIONS_def opt_def)

theorem mmlFilter_gated_witness:
  "mmlFilter (\<lambda>n d. Suc n)
      \<lparr>math = (), document = \<lparr>options = Mml3_OPTIONS Map.empty\<rparr>, data = (1::nat)\<rparr>
     = \<lparr>math = (), document = \<lparr>options = Mml3_OPTIONS Map.empty\<rparr>, data = 2\<rparr> \<and>
   mmlFilter (\<lambda>n d. Suc n)
      \<lparr>math = (), document = \<lparr>options = [''enableMml3'' \<mapsto> JBool False]\<rparr>, data = (1::nat)\<rparr>
     = \<lparr>math = (), document = \<lparr>options = [''enableMml3'' \<mapsto> JBool False]\<rparr>, data = 1\<rparr>"
  using mmlFilter_gated [of Map.empty
      "\<lparr>math = (), document = \<lparr>options = Mml3_OPTIONS Map.empty\<rparr>, data = (1::nat)\<rparr>"
      "\<lambda>n d. Suc n"]
    mmlFilter_gated [of Map.empty
      "\<lparr>math = (), document = \<lparr>options = [''enableMml3'' \<mapsto> JBool False]\<rparr>, data = (1::nat)\<rparr>"
      "\<lambda>n d. Suc n"]
  by (simp add: opt_def Mml3_OPTIONS_def)

text \<open>
  C10. However many documents are constructed, and whatever their input jax lists are,
  a jax gains the filter at most once: its number of Mml3 filters grows by at most one,
  a growth leaves the option \<^verbatim>\<open>_mml3\<close> set, and a jax whose \<^verbatim>\<open>_mml3\<close> is already set is
  left as it is.
\<close>

theorem filter_added_at_most_once:
  "mml3_count (construct_all docs st a) \<le> Suc (mml3_count (st a)) \<and>
   (mml3_count (construct_all docs st a) \<noteq> mml3_count (st a) \<longrightarrow>
      flagged (construct_all docs st a)) \<and>
   (flagged (st a) \<longrightarrow> construct_all docs st a = st a)"
  using construct_all_count [of docs st a] construct_all_flagged [of st a docs]
  by auto

theorem filter_added_at_most_once_witness:
  "mml3_count (construct_all [(1, Some [0]), (2, Some [0]), (3, Some [0])]
      (\<lambda>a. \<lparr>name = ''MathML'', jax_options = Map.empty, mmlFilters = []\<rparr>) 0) = 1 \<and>
   flagged (construct_all [(1, Some [0]), (2, Some [0]), (3, Some [0])]
      (\<lambda>a. \<lparr>name = ''MathML'', jax_options = Map.empty, mmlFilters = []\<rparr>) 0) \<and>
   construct_all [(2, Some [0])]
      (\<lambda>a. \<lparr>name = ''MathML'', jax_options = [''_mml3'' \<mapsto> JBool True],
            mmlFilters = [Mml3Filter 1]\<rparr>) 0
     = \<lparr>name = ''MathML'', jax_options = [''_mml3'' \<mapsto> JBool True],
         mmlFilters = [Mml3Filter 1]\<rparr>"
  using filter_added_at_most_once [of "[(1, Some [0]), (2, Some [0]), (3, Some [0])]"
      "\<lambda>a. \<lparr>name = ''MathML'', jax_options = Map.empty, mmlFilters = []\<rparr>" 0]
    filter_added_at_most_once [of "[(2, Some [0])]"
      "\<lambda>a. \<lparr>name = ''MathML'', jax_options = [''_mml3'' \<mapsto> JBool True],
            mmlFilters = [Mml3Filter 1]\<rparr>" 0]
  by (simp add: construct_all_def Mml3_constructor_def mml3_count_def flagged_def opt_def)

end
